theory Spec2Isabelle
  imports Main
begin

section \<open>Request bodies and schema validation\<close>

text \<open>
  A route handler reads its body with \<^verbatim>\<open>request.json()\<close> and validates it with a zod
  schema. The body is modelled as a JSON value; an object keeps its properties as a list
  of pairs in which a later duplicate of a key overrides an earlier one, as in
  \<^verbatim>\<open>JSON.parse\<close>. Numbers are kept as integers: no schema of the handlers below
  accepts a number.
\<close>

datatype json =
    JNull
  | JBool bool
  | JNumber int
  | JString string
  | JArray "json list"
  | JObject "(string \<times> json) list"

definition get_prop :: "(string \<times> json) list \<Rightarrow> string \<Rightarrow> json option" where
  "get_prop kvs k = map_of (rev kvs) k"

text \<open>\<^verbatim>\<open>z.string()\<close>: the property must be present and a string.\<close>

definition z_string :: "json option \<Rightarrow> string option" where
  "z_string v = (case v of Some (JString s) \<Rightarrow> Some s | _ \<Rightarrow> None)"

text \<open>
  \<^verbatim>\<open>z.string().optional()\<close>: an absent property is accepted and parses to undefined
  (\<open>Some None\<close>); a string is accepted; anything else (also \<^verbatim>\<open>null\<close>) is a
  validation issue (\<open>None\<close>).
\<close>

definition z_string_optional :: "json option \<Rightarrow> string option option" where
  "z_string_optional v =
     (case v of None \<Rightarrow> Some None | Some (JString s) \<Rightarrow> Some (Some s) | _ \<Rightarrow> None)"

text \<open>JavaScript truthiness of an optional string: undefined and the empty string are falsy.\<close>

definition truthy :: "string option \<Rightarrow> bool" where
  "truthy v = (case v of None \<Rightarrow> False | Some s \<Rightarrow> s \<noteq> [])"

text \<open>\<^verbatim>\<open>a || b\<close> on optional strings.\<close>

definition js_or :: "string option \<Rightarrow> string option \<Rightarrow> string option" where
  "js_or a b = (if truthy a then a else b)"

text \<open>\<^verbatim>\<open>v || null\<close>: what is stored in a nullable column.\<close>

definition or_null :: "string option \<Rightarrow> string option" where
  "or_null v = (if truthy v then v else None)"

section \<open>The relational store\<close>

text \<open>
  The tables of the Prisma schema, with the columns the handlers read or write. Every
  table is a list of rows in storage order. Timestamps are natural numbers.
\<close>

datatype GlobalRole = ADMIN | SPV | REVIEWER | USER

datatype TtfuStatus = OPEN | IN_PROGRESS | DONE | REJECTED

datatype EvidenceType = Link | File

datatype ReviewStatus = approved | rejected | needs_revision

record User =
  user_id :: string
  user_name :: string
  user_email :: string
  user_globalRole :: GlobalRole

record Meeting =
  meeting_id :: string
  meeting_title :: string

record TTFU =
  ttfu_id :: string
  ttfu_meetingId :: string
  ttfu_title :: string
  ttfu_description :: "string option"
  ttfu_assigneeId :: string
  ttfu_reviewerId :: string
  ttfu_status :: TtfuStatus
  ttfu_dueDate :: "nat option"
  ttfu_createdAt :: nat

record Evidence =
  ev_id :: string
  ev_ttfuId :: string
  ev_type :: EvidenceType
  ev_url :: "string option"
  ev_filePath :: "string option"
  ev_description :: "string option"
  ev_submittedById :: string
  ev_createdAt :: nat

record Review =
  rev_id :: string
  rev_evidenceId :: string
  rev_reviewerId :: string
  rev_status :: ReviewStatus
  rev_comment :: "string option"
  rev_createdAt :: nat

record db =
  users :: "User list"
  meetings :: "Meeting list"
  ttfus :: "TTFU list"
  evidences :: "Evidence list"
  reviews :: "Review list"

text \<open>
  The session that \<^verbatim>\<open>getServerSession\<close> returns: the user id and the global role
  stored in the token at sign-in (a string). The test \<^verbatim>\<open>!session?.user?.id\<close> of
  every handler holds for no session and for an empty id.
\<close>

record Session =
  sess_id :: string
  sess_globalRole :: string

text \<open>
  What a handler answers: \<^verbatim>\<open>{success: true, data}\<close>, or
  \<^verbatim>\<open>{error}\<close> with an HTTP status, or nothing at all when an exception leaves the
  handler (the framework then answers 500 itself).
\<close>

datatype js_exception = ReferenceError string

datatype 'a response =
    Success 'a
  | Failure nat string
  | Unhandled js_exception

text \<open>
  The catch clause shared by the handlers that import zod: a \<^verbatim>\<open>ZodError\<close> becomes
  400 "Validation error", any other exception 500 "Internal server error". (The 503 branch,
  for a database that cannot be reached, is outside the model: the store always answers.)
\<close>

abbreviation validation_error :: "'a response" where
  "validation_error \<equiv> Failure 400 ''Validation error''"

abbreviation internal_error :: "'a response" where
  "internal_error \<equiv> Failure 500 ''Internal server error''"

section \<open>Submitting a review\<close>

record review_input =
  ri_status :: ReviewStatus
  ri_comment :: "string option"

definition z_review_status :: "json option \<Rightarrow> ReviewStatus option" where
  "z_review_status v =
     (case v of
        Some (JString s) \<Rightarrow>
          (if s = ''approved'' then Some approved
           else if s = ''rejected'' then Some rejected
           else if s = ''needs_revision'' then Some needs_revision
           else None)
      | _ \<Rightarrow> None)"

definition createReviewSchema :: "json \<Rightarrow> review_input option" where
  "createReviewSchema body =
     (case body of
        JObject kvs \<Rightarrow>
          (case (z_review_status (get_prop kvs ''status''), z_string_optional (get_prop kvs ''comment'')) of
             (Some st, Some c) \<Rightarrow> Some \<lparr>ri_status = st, ri_comment = c\<rparr>
           | _ \<Rightarrow> None)
      | _ \<Rightarrow> None)"

text \<open>
  \<^verbatim>\<open>prisma.review.create\<close>: the row gets the generated id and the creation time; the
  insert fails (an exception, 500 in the handler) when the id is taken or a foreign key
  (evidence, reviewer) has no target.
\<close>

definition review_create :: "db \<Rightarrow> Review \<Rightarrow> db option" where
  "review_create d r =
     (if rev_id r \<in> set (map rev_id (reviews d)) then None
      else if rev_evidenceId r \<notin> set (map ev_id (evidences d)) then None
      else if rev_reviewerId r \<notin> set (map user_id (users d)) then None
      else Some (d\<lparr>reviews := reviews d @ [r]\<rparr>))"

text \<open>
  POST /api/ttfu/[id]/evidence/[evidenceId]/review. The parameters \<open>new_id\<close> and
  \<open>now\<close> are the id and the timestamp the store generates for the new row. The path
  parameter \<^verbatim>\<open>id\<close> (here \<open>ttfuId\<close>) is not read by the handler.
\<close>

definition POST_review ::
  "string \<Rightarrow> nat \<Rightarrow> db \<Rightarrow> Session option \<Rightarrow> string \<Rightarrow> string \<Rightarrow> json option
     \<Rightarrow> db \<times> Review response" where
  "POST_review new_id now d session ttfuId evidenceId body =
     (case session of
        None \<Rightarrow> (d, Failure 401 ''Unauthorized'')
      | Some s \<Rightarrow>
        if sess_id s = [] then (d, Failure 401 ''Unauthorized'')
        else
          (case body of
             None \<Rightarrow> (d, internal_error)
           | Some j \<Rightarrow>
             (case createReviewSchema j of
                None \<Rightarrow> (d, validation_error)
              | Some validatedData \<Rightarrow>
                if sess_globalRole s \<noteq> ''REVIEWER'' \<and> sess_globalRole s \<noteq> ''ADMIN''
                then (d, Failure 403 ''Only reviewers and admins can review evidence'')
                else
                  (case find (\<lambda>e. ev_id e = evidenceId) (evidences d) of
                     None \<Rightarrow> (d, Failure 404 ''Evidence not found'')
                   | Some evidence \<Rightarrow>
                     (case find (\<lambda>t. ttfu_id t = ev_ttfuId evidence) (ttfus d) of
                        None \<Rightarrow> (d, internal_error)
                      | Some ttfu \<Rightarrow>
                        if ttfu_reviewerId ttfu \<noteq> sess_id s \<and> sess_globalRole s \<noteq> ''ADMIN''
                        then (d, Failure 403 ''You are not the assigned reviewer for this TTFU'')
                        else
                          (case find (\<lambda>r. rev_evidenceId r = evidenceId \<and> rev_reviewerId r = sess_id s)
                                  (reviews d) of
                             Some existingReview \<Rightarrow>
                               (d, Failure 400 ''You have already reviewed this evidence'')
                           | None \<Rightarrow>
                             (let review = \<lparr>rev_id = new_id, rev_evidenceId = evidenceId,
                                            rev_reviewerId = sess_id s,
                                            rev_status = ri_status validatedData,
                                            rev_comment = or_null (ri_comment validatedData),
                                            rev_createdAt = now\<rparr>
                              in case review_create d review of
                                   None \<Rightarrow> (d, internal_error)
                                 | Some d' \<Rightarrow> (d', Success review))))))))"

section \<open>Submitting evidence\<close>

record evidence_input =
  ei_type :: EvidenceType
  ei_url :: "string option"
  ei_filePath :: "string option"
  ei_description :: "string option"

definition z_evidence_type :: "json option \<Rightarrow> EvidenceType option" where
  "z_evidence_type v =
     (case v of
        Some (JString s) \<Rightarrow>
          (if s = ''link'' then Some Link else if s = ''file'' then Some File else None)
      | _ \<Rightarrow> None)"

text \<open>
  \<^verbatim>\<open>z.string().url().optional()\<close>. Whether a string is a syntactically valid URL is
  decided by the zod library; the check is the parameter \<open>is_url\<close>.
\<close>

definition z_url_optional :: "(string \<Rightarrow> bool) \<Rightarrow> json option \<Rightarrow> string option option" where
  "z_url_optional is_url v =
     (case v of
        None \<Rightarrow> Some None
      | Some (JString s) \<Rightarrow> (if is_url s then Some (Some s) else None)
      | _ \<Rightarrow> None)"

definition createEvidenceSchema :: "(string \<Rightarrow> bool) \<Rightarrow> json \<Rightarrow> evidence_input option" where
  "createEvidenceSchema is_url body =
     (case body of
        JObject kvs \<Rightarrow>
          (case (z_evidence_type (get_prop kvs ''type''),
                 z_url_optional is_url (get_prop kvs ''url''),
                 z_string_optional (get_prop kvs ''filePath''),
                 z_string_optional (get_prop kvs ''description'')) of
             (Some ty, Some u, Some f, Some dsc) \<Rightarrow>
               Some \<lparr>ei_type = ty, ei_url = u, ei_filePath = f, ei_description = dsc\<rparr>
           | _ \<Rightarrow> None)
      | _ \<Rightarrow> None)"

text \<open>
  \<^verbatim>\<open>prisma.evidence.create\<close>: fails when the generated id is taken or a foreign key
  (TTFU, submitter) has no target.
\<close>

definition evidence_create :: "db \<Rightarrow> Evidence \<Rightarrow> db option" where
  "evidence_create d e =
     (if ev_id e \<in> set (map ev_id (evidences d)) then None
      else if ev_ttfuId e \<notin> set (map ttfu_id (ttfus d)) then None
      else if ev_submittedById e \<notin> set (map user_id (users d)) then None
      else Some (d\<lparr>evidences := evidences d @ [e]\<rparr>))"

text \<open>POST /api/ttfu/[id]/evidence\<close>

definition POST_evidence ::
  "(string \<Rightarrow> bool) \<Rightarrow> string \<Rightarrow> nat \<Rightarrow> db \<Rightarrow> Session option \<Rightarrow> string \<Rightarrow> json option
     \<Rightarrow> db \<times> Evidence response" where
  "POST_evidence is_url new_id now d session ttfuId body =
     (case session of
        None \<Rightarrow> (d, Failure 401 ''Unauthorized'')
      | Some s \<Rightarrow>
        if sess_id s = [] then (d, Failure 401 ''Unauthorized'')
        else
          (case body of
             None \<Rightarrow> (d, internal_error)
           | Some j \<Rightarrow>
             (case createEvidenceSchema is_url j of
                None \<Rightarrow> (d, validation_error)
              | Some validatedData \<Rightarrow>
                (case find (\<lambda>t. ttfu_id t = ttfuId) (ttfus d) of
                   None \<Rightarrow> (d, Failure 404 ''TTFU not found'')
                 | Some ttfu \<Rightarrow>
                   if ei_type validatedData = Link \<and> \<not> truthy (ei_url validatedData)
                   then (d, Failure 400 ''URL is required for link evidence'')
                   else if ei_type validatedData = File \<and> \<not> truthy (ei_filePath validatedData)
                   then (d, Failure 400 ''File path is required for file evidence'')
                   else
                     (let evidence = \<lparr>ev_id = new_id, ev_ttfuId = ttfuId,
                                      ev_type = ei_type validatedData,
                                      ev_url = or_null (ei_url validatedData),
                                      ev_filePath = or_null (ei_filePath validatedData),
                                      ev_description = or_null (ei_description validatedData),
                                      ev_submittedById = sess_id s,
                                      ev_createdAt = now\<rparr>
                      in case evidence_create d evidence of
                           None \<Rightarrow> (d, internal_error)
                         | Some d' \<Rightarrow> (d', Success evidence))))))"

section \<open>Reading a TTFU\<close>

text \<open>
  The \<^verbatim>\<open>include\<close> clause of the detail read: the TTFU row with its evidence ordered by
  \<^verbatim>\<open>createdAt\<close> descending, each evidence with its reviews. (The store leaves the
  order of rows with equal timestamps open; the model keeps one of the admissible orders.)
\<close>

record ttfu_detail =
  detail_ttfu :: TTFU
  detail_evidences :: "(Evidence \<times> Review list) list"

definition order_by_createdAt_desc :: "Evidence list \<Rightarrow> Evidence list" where
  "order_by_createdAt_desc es = rev (sort_key ev_createdAt es)"

definition include_detail :: "db \<Rightarrow> TTFU \<Rightarrow> ttfu_detail" where
  "include_detail d t =
     \<lparr>detail_ttfu = t,
      detail_evidences =
        map (\<lambda>e. (e, filter (\<lambda>r. rev_evidenceId r = ev_id e) (reviews d)))
          (order_by_createdAt_desc (filter (\<lambda>e. ev_ttfuId e = ttfu_id t) (evidences d)))\<rparr>"

text \<open>GET /api/ttfu/[id]\<close>

definition GET_ttfu :: "db \<Rightarrow> Session option \<Rightarrow> string \<Rightarrow> ttfu_detail response" where
  "GET_ttfu d session ttfuId =
     (case session of
        None \<Rightarrow> Failure 401 ''Unauthorized''
      | Some s \<Rightarrow>
        if sess_id s = [] then Failure 401 ''Unauthorized''
        else
          (case find (\<lambda>t. ttfu_id t = ttfuId) (ttfus d) of
             None \<Rightarrow> Failure 404 ''TTFU not found''
           | Some ttfu \<Rightarrow> Success (include_detail d ttfu)))"

section \<open>Creating a TTFU\<close>

record ttfu_input =
  ti_meetingId :: string
  ti_title :: string
  ti_description :: "string option"
  ti_assigneeId :: "string option"
  ti_reviewerId :: "string option"
  ti_dueDate :: "string option"

text \<open>\<^verbatim>\<open>z.string().min(1, "Title is required")\<close>\<close>

definition z_string_min1 :: "json option \<Rightarrow> string option" where
  "z_string_min1 v = (case v of Some (JString s) \<Rightarrow> (if 1 \<le> length s then Some s else None) | _ \<Rightarrow> None)"

definition createTTFUSchema :: "json \<Rightarrow> ttfu_input option" where
  "createTTFUSchema body =
     (case body of
        JObject kvs \<Rightarrow>
          (case (z_string (get_prop kvs ''meetingId''),
                 z_string_min1 (get_prop kvs ''title''),
                 z_string_optional (get_prop kvs ''description''),
                 z_string_optional (get_prop kvs ''assigneeId''),
                 z_string_optional (get_prop kvs ''reviewerId''),
                 z_string_optional (get_prop kvs ''dueDate'')) of
             (Some m, Some t, Some dsc, Some a, Some r, Some due) \<Rightarrow>
               Some \<lparr>ti_meetingId = m, ti_title = t, ti_description = dsc,
                     ti_assigneeId = a, ti_reviewerId = r, ti_dueDate = due\<rparr>
           | _ \<Rightarrow> None)
      | _ \<Rightarrow> None)"

text \<open>
  \<^verbatim>\<open>validatedData.dueDate ? new Date(validatedData.dueDate) : null\<close>. How JavaScript
  reads a date string is the parameter \<open>parse_date\<close>; \<open>None\<close> is an invalid date,
  which the store refuses (\<open>None\<close> of this function).
\<close>

definition due_date :: "(string \<Rightarrow> nat option) \<Rightarrow> string option \<Rightarrow> nat option option" where
  "due_date parse_date v =
     (case v of
        None \<Rightarrow> Some None
      | Some s \<Rightarrow> (if s = [] then Some None else map_option Some (parse_date s)))"

text \<open>
  \<^verbatim>\<open>prisma.tTFU.create\<close>: fails when the generated id is taken or a foreign key
  (meeting, assignee, reviewer) has no target.
\<close>

definition ttfu_create :: "db \<Rightarrow> TTFU \<Rightarrow> db option" where
  "ttfu_create d t =
     (if ttfu_id t \<in> set (map ttfu_id (ttfus d)) then None
      else if ttfu_meetingId t \<notin> set (map meeting_id (meetings d)) then None
      else if ttfu_assigneeId t \<notin> set (map user_id (users d)) then None
      else if ttfu_reviewerId t \<notin> set (map user_id (users d)) then None
      else Some (d\<lparr>ttfus := ttfus d @ [t]\<rparr>))"

text \<open>
  The auto-assignment block. \<open>currentUser\<close> is the row of the session's user, if any;
  \<^verbatim>\<open>findFirst\<close> takes the first user with role REVIEWER or ADMIN in the order the
  store returns the rows.
\<close>

definition auto_assign ::
  "db \<Rightarrow> User option \<Rightarrow> string option \<Rightarrow> string option \<Rightarrow> string option \<times> string option" where
  "auto_assign d currentUser assigneeId reviewerId =
     (if \<not> truthy assigneeId \<or> \<not> truthy reviewerId then
        (if map_option user_globalRole currentUser = Some SPV
            \<or> map_option user_globalRole currentUser = Some USER
         then
           (let reviewer = find (\<lambda>u. user_globalRole u = REVIEWER \<or> user_globalRole u = ADMIN) (users d)
            in (map_option user_id currentUser,
                js_or (map_option user_id reviewer) (map_option user_id currentUser)))
         else
           (js_or (js_or assigneeId (map_option user_id currentUser)) (Some []),
            js_or (js_or reviewerId (map_option user_id currentUser)) (Some [])))
      else (assigneeId, reviewerId))"

text \<open>POST /api/ttfu\<close>

definition POST_ttfu ::
  "(string \<Rightarrow> nat option) \<Rightarrow> string \<Rightarrow> nat \<Rightarrow> db \<Rightarrow> Session option \<Rightarrow> json option
     \<Rightarrow> db \<times> TTFU response" where
  "POST_ttfu parse_date new_id now d session body =
     (case session of
        None \<Rightarrow> (d, Failure 401 ''Unauthorized'')
      | Some s \<Rightarrow>
        if sess_id s = [] then (d, Failure 401 ''Unauthorized'')
        else
          (case body of
             None \<Rightarrow> (d, internal_error)
           | Some j \<Rightarrow>
             (case createTTFUSchema j of
                None \<Rightarrow> (d, validation_error)
              | Some validatedData \<Rightarrow>
                (let currentUser = find (\<lambda>u. user_id u = sess_id s) (users d)
                 in case auto_assign d currentUser
                           (ti_assigneeId validatedData) (ti_reviewerId validatedData) of
                      (assigneeId, reviewerId) \<Rightarrow>
                        if \<not> truthy assigneeId \<or> \<not> truthy reviewerId
                        then (d, Failure 400
                                ''Unable to assign TTFU. No valid assignee or reviewer found.'')
                        else
                          (case (assigneeId, reviewerId,
                                 due_date parse_date (ti_dueDate validatedData)) of
                             (Some a, Some r, Some due) \<Rightarrow>
                               (let ttfu = \<lparr>ttfu_id = new_id,
                                             ttfu_meetingId = ti_meetingId validatedData,
                                             ttfu_title = ti_title validatedData,
                                             ttfu_description = ti_description validatedData,
                                             ttfu_assigneeId = a, ttfu_reviewerId = r,
                                             ttfu_status = OPEN, ttfu_dueDate = due,
                                             ttfu_createdAt = now\<rparr>
                                in case ttfu_create d ttfu of
                                     None \<Rightarrow> (d, internal_error)
                                   | Some d' \<Rightarrow> (d', Success ttfu))
                           | _ \<Rightarrow> (d, internal_error))))))"

section \<open>Updating the status of a TTFU\<close>

record status_input =
  si_status :: TtfuStatus
  si_notes :: "string option"

definition z_ttfu_status :: "json option \<Rightarrow> TtfuStatus option" where
  "z_ttfu_status v =
     (case v of
        Some (JString s) \<Rightarrow>
          (if s = ''OPEN'' then Some OPEN
           else if s = ''IN_PROGRESS'' then Some IN_PROGRESS
           else if s = ''DONE'' then Some DONE
           else if s = ''REJECTED'' then Some REJECTED
           else None)
      | _ \<Rightarrow> None)"

definition updateSchema :: "json \<Rightarrow> status_input option" where
  "updateSchema body =
     (case body of
        JObject kvs \<Rightarrow>
          (case (z_ttfu_status (get_prop kvs ''status''), z_string_optional (get_prop kvs ''notes'')) of
             (Some st, Some n) \<Rightarrow> Some \<lparr>si_status = st, si_notes = n\<rparr>
           | _ \<Rightarrow> None)
      | _ \<Rightarrow> None)"

text \<open>\<^verbatim>\<open>prisma.tTFU.update({where: {id}, data: {status}})\<close>\<close>

definition ttfu_update_status :: "db \<Rightarrow> string \<Rightarrow> TtfuStatus \<Rightarrow> db" where
  "ttfu_update_status d ttfuId st =
     d\<lparr>ttfus := map (\<lambda>t. if ttfu_id t = ttfuId then t\<lparr>ttfu_status := st\<rparr> else t) (ttfus d)\<rparr>"

text \<open>
  PATCH /api/ttfu/[id]. The handler builds its schema with \<^verbatim>\<open>z.object\<close> and its catch
  clause tests \<^verbatim>\<open>error instanceof z.ZodError\<close>, so what it does depends on whether the
  identifier \<^verbatim>\<open>z\<close> is bound in the module; \<open>z_bound\<close> says so. Where it is not
  bound, evaluating \<^verbatim>\<open>z.object(...)\<close> throws a ReferenceError inside the try block,
  the catch clause throws a second one at its first test, and the exception leaves the
  handler. A body that is not JSON makes \<^verbatim>\<open>request.json()\<close> throw, which reaches the
  same catch clause.
\<close>

definition PATCH_in_scope ::
  "bool \<Rightarrow> db \<Rightarrow> Session option \<Rightarrow> string \<Rightarrow> json option \<Rightarrow> db \<times> ttfu_detail response" where
  "PATCH_in_scope z_bound d session ttfuId body =
     (case session of
        None \<Rightarrow> (d, Failure 401 ''Unauthorized'')
      | Some s \<Rightarrow>
        if sess_id s = [] then (d, Failure 401 ''Unauthorized'')
        else if \<not> z_bound then (d, Unhandled (ReferenceError ''z is not defined''))
        else
          (case body of
             None \<Rightarrow> (d, internal_error)
           | Some j \<Rightarrow>
             (case updateSchema j of
                None \<Rightarrow> (d, validation_error)
              | Some validatedData \<Rightarrow>
                (case find (\<lambda>t. ttfu_id t = ttfuId) (ttfus d) of
                   None \<Rightarrow> (d, Failure 404 ''TTFU not found'')
                 | Some existingTTFU \<Rightarrow>
                   (let d' = ttfu_update_status d ttfuId (si_status validatedData)
                    in (d', Success (include_detail d'
                                      (existingTTFU\<lparr>ttfu_status := si_status validatedData\<rparr>))))))))"

text \<open>
  The module of this route imports \<^verbatim>\<open>NextRequest\<close>, \<^verbatim>\<open>NextResponse\<close>,
  \<^verbatim>\<open>getServerSession\<close>, \<^verbatim>\<open>authOptions\<close> and \<^verbatim>\<open>prisma\<close>. Unlike the other
  route modules it has no \<^verbatim>\<open>import { z } from "zod"\<close>, and it declares no \<^verbatim>\<open>z\<close>
  of its own.
\<close>

definition ttfu_id_route_binds_z :: bool where
  "ttfu_id_route_binds_z = False"

definition PATCH :: "db \<Rightarrow> Session option \<Rightarrow> string \<Rightarrow> json option \<Rightarrow> db \<times> ttfu_detail response" where
  "PATCH = PATCH_in_scope ttfu_id_route_binds_z"

section \<open>Sample data\<close>

text \<open>
  The store after the seed script: four users, one per global role, a meeting, two TTFUs,
  one link evidence and its approved review. The second seeded TTFU has the supervisor as
  its reviewer.
\<close>

definition admin :: User where
  "admin = \<lparr>user_id = ''admin'', user_name = ''Admin User'',
            user_email = ''admin@example.com'', user_globalRole = ADMIN\<rparr>"

definition spv :: User where
  "spv = \<lparr>user_id = ''spv'', user_name = ''Supervisor User'',
          user_email = ''spv@example.com'', user_globalRole = SPV\<rparr>"

definition reviewer :: User where
  "reviewer = \<lparr>user_id = ''reviewer'', user_name = ''Reviewer User'',
               user_email = ''reviewer@example.com'', user_globalRole = REVIEWER\<rparr>"

definition user :: User where
  "user = \<lparr>user_id = ''user'', user_name = ''Regular User'',
           user_email = ''user@example.com'', user_globalRole = USER\<rparr>"

definition meeting :: Meeting where
  "meeting = \<lparr>meeting_id = ''meeting1'', meeting_title = ''Weekly Team Meeting''\<rparr>"

definition ttfu1 :: TTFU where
  "ttfu1 = \<lparr>ttfu_id = ''ttfu1'', ttfu_meetingId = ''meeting1'',
            ttfu_title = ''Complete project documentation'',
            ttfu_description = Some ''Update all project documentation and share with team'',
            ttfu_assigneeId = ''user'', ttfu_reviewerId = ''reviewer'',
            ttfu_status = OPEN, ttfu_dueDate = Some 22, ttfu_createdAt = 1\<rparr>"

definition ttfu2 :: TTFU where
  "ttfu2 = \<lparr>ttfu_id = ''ttfu2'', ttfu_meetingId = ''meeting1'',
            ttfu_title = ''Review code changes'',
            ttfu_description = Some ''Review and approve pending code changes'',
            ttfu_assigneeId = ''reviewer'', ttfu_reviewerId = ''spv'',
            ttfu_status = IN_PROGRESS, ttfu_dueDate = Some 20, ttfu_createdAt = 2\<rparr>"

definition evidence1 :: Evidence where
  "evidence1 = \<lparr>ev_id = ''evidence1'', ev_ttfuId = ''ttfu1'', ev_type = Link,
                ev_url = Some ''https://docs.google.com/document/d/example'',
                ev_filePath = None,
                ev_description = Some ''Updated project documentation link'',
                ev_submittedById = ''user'', ev_createdAt = 3\<rparr>"

definition review1 :: Review where
  "review1 = \<lparr>rev_id = ''review1'', rev_evidenceId = ''evidence1'',
              rev_reviewerId = ''reviewer'', rev_status = approved,
              rev_comment = Some ''Documentation looks good and comprehensive'',
              rev_createdAt = 4\<rparr>"

definition seed_db :: db where
  "seed_db = \<lparr>users = [admin, spv, reviewer, user], meetings = [meeting],
              ttfus = [ttfu1, ttfu2], evidences = [evidence1], reviews = [review1]\<rparr>"

text \<open>A directory without any reviewer or admin: the supervisor and the plain user only.\<close>

definition no_reviewer_db :: db where
  "no_reviewer_db = \<lparr>users = [spv, user], meetings = [meeting],
                     ttfus = [], evidences = [], reviews = []\<rparr>"

text \<open>
  A TTFU that the reviewer created without naming anybody (so the reviewer is assignee and
  reviewer at once), with evidence the reviewer submitted.
\<close>

definition ttfu3 :: TTFU where
  "ttfu3 = \<lparr>ttfu_id = ''ttfu3'', ttfu_meetingId = ''meeting1'',
            ttfu_title = ''Check the minutes'', ttfu_description = None,
            ttfu_assigneeId = ''reviewer'', ttfu_reviewerId = ''reviewer'',
            ttfu_status = OPEN, ttfu_dueDate = None, ttfu_createdAt = 5\<rparr>"

definition evidence2 :: Evidence where
  "evidence2 = \<lparr>ev_id = ''evidence2'', ev_ttfuId = ''ttfu3'', ev_type = Link,
                ev_url = Some ''https://example.com/minutes'', ev_filePath = None,
                ev_description = None, ev_submittedById = ''reviewer'', ev_createdAt = 6\<rparr>"

definition self_review_db :: db where
  "self_review_db = seed_db\<lparr>ttfus := [ttfu1, ttfu2, ttfu3],
                            evidences := [evidence1, evidence2]\<rparr>"

text \<open>Sessions of the four seeded users, and the library parameters used in examples.\<close>

definition session_of :: "User \<Rightarrow> string \<Rightarrow> Session" where
  "session_of u role = \<lparr>sess_id = user_id u, sess_globalRole = role\<rparr>"

definition example_is_url :: "string \<Rightarrow> bool" where
  "example_is_url s = (take 8 s = ''https://'' \<and> 8 < length s)"

definition no_dates :: "string \<Rightarrow> nat option" where
  "no_dates s = None"

definition approve_body :: json where
  "approve_body = JObject [(''status'', JString ''approved'')]"

definition create_ttfu_body :: json where
  "create_ttfu_body = JObject [(''meetingId'', JString ''meeting1''),
                              (''title'', JString ''Follow up'')]"

text \<open>Request bodies used in the examples.\<close>

definition link_body :: json where
  "link_body = JObject [(''type'', JString ''link''), (''url'', JString ''https://example.com/doc'')]"

definition bad_link_body :: json where
  "bad_link_body = JObject [(''type'', JString ''link''), (''url'', JString ''not a url'')]"

definition link_and_file_body :: json where
  "link_and_file_body = JObject [(''type'', JString ''link''),
      (''url'', JString ''https://example.com/doc''), (''filePath'', JString ''uploads/doc.pdf'')]"

definition file_body :: json where
  "file_body = JObject [(''type'', JString ''file''), (''filePath'', JString ''uploads/report.pdf'')]"

definition create_ttfu_for_user_body :: json where
  "create_ttfu_for_user_body = JObject [(''meetingId'', JString ''meeting1''),
      (''title'', JString ''Prepare the report''), (''assigneeId'', JString ''user'')]"

section \<open>Evaluation rules and auxiliary facts\<close>

lemmas sample_defs = admin_def spv_def reviewer_def user_def meeting_def ttfu1_def ttfu2_def
  ttfu3_def evidence1_def evidence2_def review1_def seed_db_def no_reviewer_db_def
  self_review_db_def session_of_def approve_body_def create_ttfu_body_def

lemmas zod_defs = get_prop_def z_string_def z_string_optional_def z_string_min1_def
  z_review_status_def z_evidence_type_def z_url_optional_def z_ttfu_status_def
  createReviewSchema_def createEvidenceSchema_def createTTFUSchema_def updateSchema_def

lemmas js_defs = truthy_def js_or_def or_null_def

lemmas body_defs = link_body_def bad_link_body_def link_and_file_body_def file_body_def

lemmas ttfu_eval = POST_ttfu_def auto_assign_def ttfu_create_def due_date_def Let_def js_defs

lemma find_map_field:
  "find P (map f xs) = map_option f (find (\<lambda>x. P (f x)) xs)"
  by (induction xs) auto

lemma approve_body_valid:
  "createReviewSchema approve_body = Some \<lparr>ri_status = approved, ri_comment = None\<rparr>"
  by (simp add: sample_defs zod_defs)

text \<open>
  Once a reviewer has a review on an evidence, no call of theirs on that evidence changes
  the store, whatever the body, the role in the session or the generated id.
\<close>

lemma duplicate_never_inserts:
  assumes prior: "\<exists>r \<in> set (reviews d). rev_evidenceId r = e \<and> rev_reviewerId r = sess_id s"
  shows "fst (POST_review n c d (Some s) p e b) = d"
proof -
  from prior
  have "find (\<lambda>r. rev_evidenceId r = e \<and> rev_reviewerId r = sess_id s) (reviews d) \<noteq> None"
    by (auto simp: find_None_iff)
  then show ?thesis
    by (auto simp: POST_review_def Let_def split: option.splits)
qed

text \<open>The insert of a review goes through when the keys are in order.\<close>

lemma review_create_ok:
  assumes "find (\<lambda>x. ev_id x = e) (evidences d) = Some ev"
    and "rev_evidenceId row = e"
    and "rev_reviewerId row \<in> user_id ` set (users d)"
    and "rev_id row \<notin> rev_id ` set (reviews d)"
  shows "review_create d row = Some (d\<lparr>reviews := reviews d @ [row]\<rparr>)"
proof -
  from assms(1) have "ev_id ev = e" and "ev \<in> set (evidences d)"
    by (auto simp: find_Some_iff)
  then have "e \<in> ev_id ` set (evidences d)" by auto
  with assms(2-4) show ?thesis by (simp add: review_create_def)
qed

text \<open>What a successful review call leaves behind, and what the same caller gets next.\<close>

lemma review_success_frame:
  assumes "POST_review new_id now d session p e body = (d', Success r)"
  shows "ttfus d' = ttfus d" and "evidences d' = evidences d" and "reviews d' = reviews d @ [r]"
  using assms
  by (auto simp: POST_review_def review_create_def Let_def split: option.splits if_splits)

lemma second_review_refused:
  assumes first: "POST_review n1 c1 d (Some s) p1 e b1 = (d', Success r)"
    and body: "createReviewSchema j = Some v"
  shows "POST_review n2 c2 d' (Some s) p2 e (Some j) =
           (d', Failure 400 ''You have already reviewed this evidence'')"
proof -
  from first obtain ev t where
    auth: "sess_id s \<noteq> []"
    and role: "sess_globalRole s = ''REVIEWER'' \<or> sess_globalRole s = ''ADMIN''"
    and ev: "find (\<lambda>x. ev_id x = e) (evidences d) = Some ev"
    and t: "find (\<lambda>x. ttfu_id x = ev_ttfuId ev) (ttfus d) = Some t"
    and designated: "ttfu_reviewerId t = sess_id s \<or> sess_globalRole s = ''ADMIN''"
    and r: "rev_evidenceId r = e" "rev_reviewerId r = sess_id s"
    by (auto simp: POST_review_def Let_def split: option.splits if_splits)
  note same = review_success_frame [OF first]
  have "find (\<lambda>x. rev_evidenceId x = e \<and> rev_reviewerId x = sess_id s) (reviews d') \<noteq> None"
    using r by (auto simp: find_None_iff same)
  with auth role ev t designated body show ?thesis
    by (auto simp: POST_review_def same split: option.splits)
qed

section \<open>The review workflow\<close>

text \<open>
  Claim C1. Let a reviewer \<open>s1\<close> already have a Review row on an evidence. A further
  submit-review call of \<open>s1\<close> on that evidence (valid body, authorized as before) is
  answered with the duplicate-review error, status 400 "You have already reviewed this
  evidence", and no call of \<open>s1\<close> on that evidence inserts a row, whatever it sends.
  A call on the same evidence by another authorized reviewer \<open>s2\<close> (role reviewer or
  admin, the TTFU's designated reviewer or an admin, a registered user, no review of
  theirs on the evidence yet) succeeds and appends exactly the new Review row.
\<close>

theorem one_review_per_reviewer:
  assumes ev: "find (\<lambda>x. ev_id x = e) (evidences d) = Some ev"
    and t: "find (\<lambda>x. ttfu_id x = ev_ttfuId ev) (ttfus d) = Some t"
    and body: "createReviewSchema j = Some v"
    and s1: "sess_id s1 \<noteq> []"
            "sess_globalRole s1 = ''REVIEWER'' \<or> sess_globalRole s1 = ''ADMIN''"
            "ttfu_reviewerId t = sess_id s1 \<or> sess_globalRole s1 = ''ADMIN''"
    and prior: "\<exists>r \<in> set (reviews d). rev_evidenceId r = e \<and> rev_reviewerId r = sess_id s1"
    and s2: "sess_id s2 \<noteq> []"
            "sess_globalRole s2 = ''REVIEWER'' \<or> sess_globalRole s2 = ''ADMIN''"
            "ttfu_reviewerId t = sess_id s2 \<or> sess_globalRole s2 = ''ADMIN''"
    and noprior: "\<forall>r \<in> set (reviews d). rev_evidenceId r = e \<longrightarrow> rev_reviewerId r \<noteq> sess_id s2"
    and registered: "sess_id s2 \<in> user_id ` set (users d)"
    and fresh: "new_id \<notin> rev_id ` set (reviews d)"
    and row: "row = \<lparr>rev_id = new_id, rev_evidenceId = e, rev_reviewerId = sess_id s2,
                     rev_status = ri_status v, rev_comment = or_null (ri_comment v),
                     rev_createdAt = now\<rparr>"
  shows "POST_review new_id now d (Some s1) p e (Some j) =
           (d, Failure 400 ''You have already reviewed this evidence'')
       \<and> (\<forall>n c p' b. fst (POST_review n c d (Some s1) p' e b) = d)
       \<and> POST_review new_id now d (Some s2) p e (Some j) =
           (d\<lparr>reviews := reviews d @ [row]\<rparr>, Success row)"
proof (intro conjI allI)
  from prior
  have "find (\<lambda>r. rev_evidenceId r = e \<and> rev_reviewerId r = sess_id s1) (reviews d) \<noteq> None"
    by (auto simp: find_None_iff)
  with ev t body s1
  show "POST_review new_id now d (Some s1) p e (Some j) =
          (d, Failure 400 ''You have already reviewed this evidence'')"
    by (auto simp: POST_review_def split: option.splits)
next
  fix n c p' b
  show "fst (POST_review n c d (Some s1) p' e b) = d"
    using prior by (rule duplicate_never_inserts)
next
  from noprior
  have none: "find (\<lambda>r. rev_evidenceId r = e \<and> rev_reviewerId r = sess_id s2) (reviews d) = None"
    by (auto simp: find_None_iff)
  have "review_create d row = Some (d\<lparr>reviews := reviews d @ [row]\<rparr>)"
    using ev registered fresh by (intro review_create_ok) (simp_all add: row)
  with ev t body s2 none
  show "POST_review new_id now d (Some s2) p e (Some j) =
          (d\<lparr>reviews := reviews d @ [row]\<rparr>, Success row)"
    by (auto simp: POST_review_def Let_def row)
qed

text \<open>
  On the seeded store the reviewer has reviewed the seeded evidence: a second call is
  refused, and the admin's call on the same evidence adds a second row.
\<close>

theorem one_review_per_reviewer_witness:
  "POST_review ''review2'' 9 seed_db (Some (session_of reviewer ''REVIEWER'')) ''ttfu1''
     ''evidence1'' (Some approve_body)
   = (seed_db, Failure 400 ''You have already reviewed this evidence'')
   \<and> POST_review ''review2'' 9 seed_db (Some (session_of admin ''ADMIN'')) ''ttfu1''
     ''evidence1'' (Some approve_body)
   = (seed_db\<lparr>reviews := [review1,
         \<lparr>rev_id = ''review2'', rev_evidenceId = ''evidence1'', rev_reviewerId = ''admin'',
          rev_status = approved, rev_comment = None, rev_createdAt = 9\<rparr>]\<rparr>,
      Success \<lparr>rev_id = ''review2'', rev_evidenceId = ''evidence1'', rev_reviewerId = ''admin'',
          rev_status = approved, rev_comment = None, rev_createdAt = 9\<rparr>)"
proof -
  let ?s1 = "session_of reviewer ''REVIEWER''"
  let ?s2 = "session_of admin ''ADMIN''"
  have ev: "find (\<lambda>x. ev_id x = ''evidence1'') (evidences seed_db) = Some evidence1"
    by (simp add: sample_defs)
  have t: "find (\<lambda>x. ttfu_id x = ev_ttfuId evidence1) (ttfus seed_db) = Some ttfu1"
    by (simp add: sample_defs)
  have s1: "sess_id ?s1 \<noteq> []"
    "sess_globalRole ?s1 = ''REVIEWER'' \<or> sess_globalRole ?s1 = ''ADMIN''"
    "ttfu_reviewerId ttfu1 = sess_id ?s1 \<or> sess_globalRole ?s1 = ''ADMIN''"
    by (simp_all add: sample_defs)
  have prior: "\<exists>r \<in> set (reviews seed_db).
                 rev_evidenceId r = ''evidence1'' \<and> rev_reviewerId r = sess_id ?s1"
    by (simp add: sample_defs)
  have s2: "sess_id ?s2 \<noteq> []"
    "sess_globalRole ?s2 = ''REVIEWER'' \<or> sess_globalRole ?s2 = ''ADMIN''"
    "ttfu_reviewerId ttfu1 = sess_id ?s2 \<or> sess_globalRole ?s2 = ''ADMIN''"
    by (simp_all add: sample_defs)
  have noprior: "\<forall>r \<in> set (reviews seed_db).
                   rev_evidenceId r = ''evidence1'' \<longrightarrow> rev_reviewerId r \<noteq> sess_id ?s2"
    by (simp add: sample_defs)
  have registered: "sess_id ?s2 \<in> user_id ` set (users seed_db)"
    by (simp add: sample_defs)
  have fresh: "''review2'' \<notin> rev_id ` set (reviews seed_db)"
    by (simp add: sample_defs)
  from one_review_per_reviewer
         [OF ev t approve_body_valid s1 prior s2 noprior registered fresh refl, of 9 "''ttfu1''"]
  show ?thesis by (simp add: js_defs) (simp add: seed_db_def session_of_def admin_def)
qed

text \<open>
  Claim C3, as the code has it. The body is validated before the caller's role is
  looked at. For an authenticated caller whose global role is neither reviewer nor admin,
  every call is refused and the store is left as it was; the answer is the authorization
  error 403 "Only reviewers and admins can review evidence" when the body passes the
  schema, the validation error 400 when it does not, and 500 when the body is not JSON.
\<close>

theorem review_by_other_role_rejected:
  assumes "sess_id s \<noteq> []"
    and "sess_globalRole s \<noteq> ''REVIEWER''" and "sess_globalRole s \<noteq> ''ADMIN''"
  shows "POST_review new_id now d (Some s) ttfuId evidenceId body =
           (d, case body of
                 None \<Rightarrow> internal_error
               | Some j \<Rightarrow>
                   (case createReviewSchema j of
                      None \<Rightarrow> validation_error
                    | Some v \<Rightarrow> Failure 403 ''Only reviewers and admins can review evidence''))"
  using assms by (simp add: POST_review_def split: option.splits)

theorem review_by_other_role_rejected_witness:
  "POST_review ''review2'' 9 seed_db (Some (session_of spv ''SPV'')) ''ttfu2'' ''evidence1''
     (Some approve_body)
   = (seed_db, Failure 403 ''Only reviewers and admins can review evidence'')"
proof -
  have a: "sess_id (session_of spv ''SPV'') \<noteq> []"
    and b: "sess_globalRole (session_of spv ''SPV'') \<noteq> ''REVIEWER''"
    and c: "sess_globalRole (session_of spv ''SPV'') \<noteq> ''ADMIN''"
    by (simp_all add: sample_defs)
  from review_by_other_role_rejected
         [OF a b c, of "''review2''" 9 seed_db "''ttfu2''" "''evidence1''" "Some approve_body"]
  show ?thesis by (simp add: approve_body_valid)
qed

text \<open>
  The claim as stated fails: the supervisor sends a body whose status is not one of the
  three decisions and gets the validation error, not an authorization error.
\<close>

theorem review_malformed_body_counterexample:
  "POST_review ''review2'' 9 seed_db (Some (session_of spv ''SPV'')) ''ttfu2'' ''evidence1''
     (Some (JObject [(''status'', JString ''ok'')]))
   = (seed_db, Failure 400 ''Validation error'')"
  by (simp add: POST_review_def sample_defs zod_defs)

text \<open>
  Claim C8. A successful submit-review call appends the Review row and changes nothing
  else: the TTFU table (so the parent TTFU, its status and every other field of it) is
  the same before and after, whatever the decision.
\<close>

theorem review_leaves_ttfus_unchanged:
  assumes "POST_review new_id now d session p e body = (d', Success r)"
  shows "ttfus d' = ttfus d \<and> users d' = users d \<and> meetings d' = meetings d
       \<and> evidences d' = evidences d \<and> reviews d' = reviews d @ [r]"
  using assms
  by (auto simp: POST_review_def review_create_def Let_def split: option.splits if_splits)

text \<open>The admin approves the evidence of the first seeded TTFU, which stays open.\<close>

theorem review_leaves_ttfus_unchanged_witness:
  "POST_review ''review2'' 9 seed_db (Some (session_of admin ''ADMIN'')) ''ttfu1''
     ''evidence1'' (Some approve_body)
   = (seed_db\<lparr>reviews := [review1,
         \<lparr>rev_id = ''review2'', rev_evidenceId = ''evidence1'', rev_reviewerId = ''admin'',
          rev_status = approved, rev_comment = None, rev_createdAt = 9\<rparr>]\<rparr>,
      Success \<lparr>rev_id = ''review2'', rev_evidenceId = ''evidence1'', rev_reviewerId = ''admin'',
          rev_status = approved, rev_comment = None, rev_createdAt = 9\<rparr>)
   \<and> ttfus (seed_db\<lparr>reviews := [review1,
         \<lparr>rev_id = ''review2'', rev_evidenceId = ''evidence1'', rev_reviewerId = ''admin'',
          rev_status = approved, rev_comment = None, rev_createdAt = 9\<rparr>]\<rparr>) = ttfus seed_db
   \<and> map ttfu_status (ttfus seed_db) = [OPEN, IN_PROGRESS]"
proof -
  have run: "POST_review ''review2'' 9 seed_db (Some (session_of admin ''ADMIN'')) ''ttfu1''
     ''evidence1'' (Some approve_body)
   = (seed_db\<lparr>reviews := [review1,
         \<lparr>rev_id = ''review2'', rev_evidenceId = ''evidence1'', rev_reviewerId = ''admin'',
          rev_status = approved, rev_comment = None, rev_createdAt = 9\<rparr>]\<rparr>,
      Success \<lparr>rev_id = ''review2'', rev_evidenceId = ''evidence1'', rev_reviewerId = ''admin'',
          rev_status = approved, rev_comment = None, rev_createdAt = 9\<rparr>)"
    by (simp add: POST_review_def review_create_def Let_def sample_defs zod_defs js_defs)
  from review_leaves_ttfus_unchanged [OF run] show ?thesis
    using run by (simp add: seed_db_def ttfu1_def ttfu2_def)
qed

text \<open>
  Claim C10. Self-review is permitted. When the caller submitted the evidence and is the
  designated reviewer of its TTFU, holds role reviewer or admin, sends a valid body and
  has not reviewed the evidence yet, the call succeeds and appends the Review row. The
  handler never reads who submitted the evidence: rewriting the submitter column in any
  way leaves the answer of every call the same.
\<close>

theorem self_review_permitted:
  assumes ev: "find (\<lambda>x. ev_id x = e) (evidences d) = Some ev"
    and t: "find (\<lambda>x. ttfu_id x = ev_ttfuId ev) (ttfus d) = Some t"
    and submitter: "ev_submittedById ev = sess_id s"
    and designated: "ttfu_reviewerId t = sess_id s"
    and role: "sess_globalRole s = ''REVIEWER'' \<or> sess_globalRole s = ''ADMIN''"
    and auth: "sess_id s \<noteq> []"
    and body: "createReviewSchema j = Some v"
    and noprior: "\<forall>r \<in> set (reviews d). rev_evidenceId r = e \<longrightarrow> rev_reviewerId r \<noteq> sess_id s"
    and registered: "sess_id s \<in> user_id ` set (users d)"
    and fresh: "new_id \<notin> rev_id ` set (reviews d)"
    and row: "row = \<lparr>rev_id = new_id, rev_evidenceId = e, rev_reviewerId = sess_id s,
                     rev_status = ri_status v, rev_comment = or_null (ri_comment v),
                     rev_createdAt = now\<rparr>"
  shows "POST_review new_id now d (Some s) p e (Some j) =
           (d\<lparr>reviews := reviews d @ [row]\<rparr>, Success row)
       \<and> (\<forall>f n c session p' e' b.
             snd (POST_review n c
                    (d\<lparr>evidences := map (\<lambda>x. x\<lparr>ev_submittedById := f x\<rparr>) (evidences d)\<rparr>)
                    session p' e' b)
             = snd (POST_review n c d session p' e' b))"
proof (intro conjI allI)
  from noprior
  have none: "find (\<lambda>r. rev_evidenceId r = e \<and> rev_reviewerId r = sess_id s) (reviews d) = None"
    by (auto simp: find_None_iff)
  have "review_create d row = Some (d\<lparr>reviews := reviews d @ [row]\<rparr>)"
    using ev registered fresh by (intro review_create_ok) (simp_all add: row)
  with ev t body role auth designated none
  show "POST_review new_id now d (Some s) p e (Some j) =
          (d\<lparr>reviews := reviews d @ [row]\<rparr>, Success row)"
    by (auto simp: POST_review_def Let_def row)
next
  fix f n c session p' e' b
  show "snd (POST_review n c
               (d\<lparr>evidences := map (\<lambda>x. x\<lparr>ev_submittedById := f x\<rparr>) (evidences d)\<rparr>)
               session p' e' b)
        = snd (POST_review n c d session p' e' b)"
    by (auto simp: POST_review_def Let_def find_map_field review_create_def image_image
             split: option.splits)
qed

text \<open>The reviewer reviews the evidence they submitted on the TTFU they review.\<close>

theorem self_review_permitted_witness:
  "ev_submittedById evidence2 = ''reviewer'' \<and> ttfu_reviewerId ttfu3 = ''reviewer''
   \<and> POST_review ''review2'' 9 self_review_db (Some (session_of reviewer ''REVIEWER''))
       ''ttfu3'' ''evidence2'' (Some approve_body)
     = (self_review_db\<lparr>reviews := [review1,
           \<lparr>rev_id = ''review2'', rev_evidenceId = ''evidence2'', rev_reviewerId = ''reviewer'',
            rev_status = approved, rev_comment = None, rev_createdAt = 9\<rparr>]\<rparr>,
        Success \<lparr>rev_id = ''review2'', rev_evidenceId = ''evidence2'',
            rev_reviewerId = ''reviewer'', rev_status = approved, rev_comment = None,
            rev_createdAt = 9\<rparr>)"
proof -
  let ?s = "session_of reviewer ''REVIEWER''"
  have ev: "find (\<lambda>x. ev_id x = ''evidence2'') (evidences self_review_db) = Some evidence2"
    by (simp add: sample_defs)
  have t: "find (\<lambda>x. ttfu_id x = ev_ttfuId evidence2) (ttfus self_review_db) = Some ttfu3"
    by (simp add: sample_defs)
  have submitter: "ev_submittedById evidence2 = sess_id ?s"
    and designated: "ttfu_reviewerId ttfu3 = sess_id ?s"
    and role: "sess_globalRole ?s = ''REVIEWER'' \<or> sess_globalRole ?s = ''ADMIN''"
    and auth: "sess_id ?s \<noteq> []"
    by (simp_all add: sample_defs)
  have noprior: "\<forall>r \<in> set (reviews self_review_db).
                   rev_evidenceId r = ''evidence2'' \<longrightarrow> rev_reviewerId r \<noteq> sess_id ?s"
    by (simp add: sample_defs)
  have registered: "sess_id ?s \<in> user_id ` set (users self_review_db)"
    by (simp add: sample_defs)
  have fresh: "''review2'' \<notin> rev_id ` set (reviews self_review_db)"
    by (simp add: sample_defs)
  from self_review_permitted
         [OF ev t submitter designated role auth approve_body_valid noprior registered fresh refl,
          of 9 "''ttfu3''"]
  show ?thesis
    by (simp add: js_defs) (simp add: self_review_db_def seed_db_def session_of_def
                              reviewer_def evidence2_def ttfu3_def)
qed

section \<open>Evidence\<close>

text \<open>
  Facts about the evidence list of the detail read: it holds the evidence of the TTFU,
  newest first, and an evidence newer than all others is put in front.
\<close>

lemma insort_key_before_last:
  "f x < f r \<Longrightarrow> insort_key f x (ys @ [r]) = insort_key f x ys @ [r]"
  by (induction ys) auto

lemma foldr_insort_key_before_last:
  "\<forall>x \<in> set xs. f x < f r \<Longrightarrow>
     foldr (insort_key f) xs (zs @ [r]) = foldr (insort_key f) xs zs @ [r]"
  by (induction xs) (auto simp: insort_key_before_last)

lemma sort_key_snoc_newest:
  assumes "\<forall>x \<in> set xs. f x < f r"
  shows "sort_key f (xs @ [r]) = sort_key f xs @ [r]"
proof -
  have "sort_key f (xs @ [r]) = foldr (insort_key f) xs ([] @ [r])"
    by (simp add: sort_key_def)
  also have "\<dots> = foldr (insort_key f) xs [] @ [r]"
    using assms by (rule foldr_insort_key_before_last)
  finally show ?thesis by (simp add: sort_key_def)
qed

lemma order_by_createdAt_desc_sorted:
  "sorted_wrt (\<lambda>a b. ev_createdAt b \<le> ev_createdAt a) (order_by_createdAt_desc es)"
proof -
  have "sorted (map ev_createdAt (sort_key ev_createdAt es))"
    by (rule sorted_sort_key)
  then have "sorted_wrt (\<lambda>a b. ev_createdAt a \<le> ev_createdAt b) (sort_key ev_createdAt es)"
    by (simp add: sorted_map)
  then show ?thesis
    by (simp add: order_by_createdAt_desc_def sorted_wrt_rev)
qed

lemma order_by_createdAt_desc_set: "set (order_by_createdAt_desc es) = set es"
  by (simp add: order_by_createdAt_desc_def)

lemma order_by_createdAt_desc_newest:
  "\<forall>x \<in> set es. ev_createdAt x < ev_createdAt r \<Longrightarrow>
     order_by_createdAt_desc (es @ [r]) = r # order_by_createdAt_desc es"
  by (simp add: order_by_createdAt_desc_def sort_key_snoc_newest)

lemma listed_evidence:
  "map fst (detail_evidences (include_detail d t)) =
     order_by_createdAt_desc (filter (\<lambda>e. ev_ttfuId e = ttfu_id t) (evidences d))"
  by (simp add: include_detail_def comp_def)

lemma evidence_create_ok:
  assumes "find (\<lambda>x. ttfu_id x = ev_ttfuId row) (ttfus d) = Some t"
    and "ev_submittedById row \<in> user_id ` set (users d)"
    and "ev_id row \<notin> ev_id ` set (evidences d)"
  shows "evidence_create d row = Some (d\<lparr>evidences := evidences d @ [row]\<rparr>)"
proof -
  from assms(1) have "ttfu_id t = ev_ttfuId row" and "t \<in> set (ttfus d)"
    by (auto simp: find_Some_iff)
  then have "ev_ttfuId row \<in> ttfu_id ` set (ttfus d)" by force
  with assms(2,3) show ?thesis by (simp add: evidence_create_def)
qed

lemma malformed_url_rejected:
  assumes "get_prop kvs ''url'' = Some (JString u)" and "\<not> is_url u"
  shows "createEvidenceSchema is_url (JObject kvs) = None"
  using assms by (simp add: createEvidenceSchema_def z_url_optional_def split: option.splits)

lemma example_is_url_simps:
  "example_is_url ''https://example.com/doc''" "\<not> example_is_url ''not a url''"
  by (simp_all add: example_is_url_def)

lemma link_body_valid:
  "createEvidenceSchema example_is_url link_body
     = Some \<lparr>ei_type = Link, ei_url = Some ''https://example.com/doc'',
             ei_filePath = None, ei_description = None\<rparr>"
  by (simp add: body_defs zod_defs example_is_url_simps)

text \<open>
  Claim C9. Submitting link evidence, by an authenticated caller. A URL that the schema's
  URL check refuses gives the validation error 400 and no Evidence row. A well-formed,
  non-empty URL on an existing TTFU (caller a registered user, generated id unused) gives
  success: exactly one row is appended, attributed to the caller; the detail read of that
  TTFU then lists the row, the list is ordered by creation time descending, and when the
  row is strictly newer than the other evidence of the TTFU it is the first entry, ahead of
  the previous list. A schema-valid body for a TTFU that does not exist gives 404
  "TTFU not found" and no row.
\<close>

theorem link_evidence_submission:
  assumes auth: "sess_id s \<noteq> []"
    and row: "row = \<lparr>ev_id = new_id, ev_ttfuId = ttfuId, ev_type = Link, ev_url = Some u,
                     ev_filePath = or_null (ei_filePath v),
                     ev_description = or_null (ei_description v),
                     ev_submittedById = sess_id s, ev_createdAt = now\<rparr>"
    and d': "d' = d\<lparr>evidences := evidences d @ [row]\<rparr>"
  shows "(get_prop kvs ''type'' = Some (JString ''link'')
          \<and> get_prop kvs ''url'' = Some (JString bad) \<and> \<not> is_url bad \<longrightarrow>
            POST_evidence is_url new_id now d (Some s) ttfuId (Some (JObject kvs))
              = (d, validation_error))
       \<and> (createEvidenceSchema is_url j = Some v \<and> ei_type v = Link
          \<and> ei_url v = Some u \<and> u \<noteq> []
          \<and> find (\<lambda>x. ttfu_id x = ttfuId) (ttfus d) = Some t
          \<and> sess_id s \<in> user_id ` set (users d) \<and> new_id \<notin> ev_id ` set (evidences d) \<longrightarrow>
            POST_evidence is_url new_id now d (Some s) ttfuId (Some j) = (d', Success row)
            \<and> GET_ttfu d' (Some s) ttfuId = Success (include_detail d' t)
            \<and> row \<in> set (map fst (detail_evidences (include_detail d' t)))
            \<and> sorted_wrt (\<lambda>a b. ev_createdAt b \<le> ev_createdAt a)
                 (map fst (detail_evidences (include_detail d' t)))
            \<and> ((\<forall>x \<in> set (evidences d). ev_ttfuId x = ttfuId \<longrightarrow> ev_createdAt x < now) \<longrightarrow>
                 map fst (detail_evidences (include_detail d' t))
                   = row # map fst (detail_evidences (include_detail d t))))
       \<and> (createEvidenceSchema is_url j = Some v
          \<and> find (\<lambda>x. ttfu_id x = ttfuId) (ttfus d) = None \<longrightarrow>
            POST_evidence is_url new_id now d (Some s) ttfuId (Some j)
              = (d, Failure 404 ''TTFU not found''))"
proof (intro conjI impI)
  assume "get_prop kvs ''type'' = Some (JString ''link'')
          \<and> get_prop kvs ''url'' = Some (JString bad) \<and> \<not> is_url bad"
  then have "createEvidenceSchema is_url (JObject kvs) = None"
    by (simp add: malformed_url_rejected)
  with auth show "POST_evidence is_url new_id now d (Some s) ttfuId (Some (JObject kvs))
                    = (d, validation_error)"
    by (simp add: POST_evidence_def)
next
  assume "createEvidenceSchema is_url j = Some v
          \<and> find (\<lambda>x. ttfu_id x = ttfuId) (ttfus d) = None"
  with auth show "POST_evidence is_url new_id now d (Some s) ttfuId (Some j)
                    = (d, Failure 404 ''TTFU not found'')"
    by (simp add: POST_evidence_def)
next
  assume h: "createEvidenceSchema is_url j = Some v \<and> ei_type v = Link
          \<and> ei_url v = Some u \<and> u \<noteq> []
          \<and> find (\<lambda>x. ttfu_id x = ttfuId) (ttfus d) = Some t
          \<and> sess_id s \<in> user_id ` set (users d) \<and> new_id \<notin> ev_id ` set (evidences d)"
  then have t: "find (\<lambda>x. ttfu_id x = ttfuId) (ttfus d) = Some t" by simp
  then have tid: "ttfu_id t = ttfuId" by (auto simp: find_Some_iff)
  have "evidence_create d row = Some d'"
    unfolding d' using h by (intro evidence_create_ok [where t = t]) (simp_all add: row)
  with auth h show "POST_evidence is_url new_id now d (Some s) ttfuId (Some j) = (d', Success row)"
    by (simp add: POST_evidence_def Let_def row truthy_def or_null_def)
  from auth t show "GET_ttfu d' (Some s) ttfuId = Success (include_detail d' t)"
    by (simp add: GET_ttfu_def d')
  have flt: "filter (\<lambda>e. ev_ttfuId e = ttfuId) (evidences d')
               = filter (\<lambda>e. ev_ttfuId e = ttfuId) (evidences d) @ [row]"
    by (simp add: d' row)
  show "row \<in> set (map fst (detail_evidences (include_detail d' t)))"
    by (simp only: listed_evidence tid order_by_createdAt_desc_set flt) simp
  show "sorted_wrt (\<lambda>a b. ev_createdAt b \<le> ev_createdAt a)
          (map fst (detail_evidences (include_detail d' t)))"
    by (simp only: listed_evidence order_by_createdAt_desc_sorted)
  assume newest: "\<forall>x \<in> set (evidences d). ev_ttfuId x = ttfuId \<longrightarrow> ev_createdAt x < now"
  then have "\<forall>x \<in> set (filter (\<lambda>e. ev_ttfuId e = ttfuId) (evidences d)).
               ev_createdAt x < ev_createdAt row"
    by (simp add: row)
  then show "map fst (detail_evidences (include_detail d' t))
               = row # map fst (detail_evidences (include_detail d t))"
    by (simp only: listed_evidence flt order_by_createdAt_desc_newest tid)
qed

theorem link_evidence_submission_witness:
  "POST_evidence example_is_url ''evidence9'' 8 seed_db (Some (session_of user ''USER'')) ''ttfu1''
     (Some bad_link_body) = (seed_db, Failure 400 ''Validation error'')
   \<and> POST_evidence example_is_url ''evidence9'' 8 seed_db (Some (session_of user ''USER'')) ''ttfu1''
     (Some link_body)
     = (seed_db\<lparr>evidences := [evidence1,
          \<lparr>ev_id = ''evidence9'', ev_ttfuId = ''ttfu1'', ev_type = Link,
           ev_url = Some ''https://example.com/doc'', ev_filePath = None,
           ev_description = None, ev_submittedById = ''user'', ev_createdAt = 8\<rparr>]\<rparr>,
        Success \<lparr>ev_id = ''evidence9'', ev_ttfuId = ''ttfu1'', ev_type = Link,
           ev_url = Some ''https://example.com/doc'', ev_filePath = None,
           ev_description = None, ev_submittedById = ''user'', ev_createdAt = 8\<rparr>)
   \<and> map fst (detail_evidences (include_detail
         (seed_db\<lparr>evidences := [evidence1,
          \<lparr>ev_id = ''evidence9'', ev_ttfuId = ''ttfu1'', ev_type = Link,
           ev_url = Some ''https://example.com/doc'', ev_filePath = None,
           ev_description = None, ev_submittedById = ''user'', ev_createdAt = 8\<rparr>]\<rparr>) ttfu1))
     = [\<lparr>ev_id = ''evidence9'', ev_ttfuId = ''ttfu1'', ev_type = Link,
           ev_url = Some ''https://example.com/doc'', ev_filePath = None,
           ev_description = None, ev_submittedById = ''user'', ev_createdAt = 8\<rparr>, evidence1]
   \<and> POST_evidence example_is_url ''evidence9'' 8 seed_db (Some (session_of user ''USER''))
       ''ttfu7'' (Some link_body) = (seed_db, Failure 404 ''TTFU not found'')"
proof -
  let ?s = "session_of user ''USER''"
  let ?v = "\<lparr>ei_type = Link, ei_url = Some ''https://example.com/doc'',
             ei_filePath = None, ei_description = None\<rparr>"
  have auth: "sess_id ?s \<noteq> []" by (simp add: sample_defs)
  have bad: "get_prop [(''type'', JString ''link''), (''url'', JString ''not a url'')] ''type''
               = Some (JString ''link'')
             \<and> get_prop [(''type'', JString ''link''), (''url'', JString ''not a url'')] ''url''
               = Some (JString ''not a url'')
             \<and> \<not> example_is_url ''not a url''"
    by (simp add: get_prop_def example_is_url_simps)
  have good: "createEvidenceSchema example_is_url link_body = Some ?v \<and> ei_type ?v = Link
          \<and> ei_url ?v = Some ''https://example.com/doc'' \<and> ''https://example.com/doc'' \<noteq> []
          \<and> find (\<lambda>x. ttfu_id x = ''ttfu1'') (ttfus seed_db) = Some ttfu1
          \<and> sess_id ?s \<in> user_id ` set (users seed_db)
          \<and> ''evidence9'' \<notin> ev_id ` set (evidences seed_db)"
    by (simp add: link_body_valid) (simp add: sample_defs)
  have newest: "\<forall>x \<in> set (evidences seed_db). ev_ttfuId x = ''ttfu1'' \<longrightarrow> ev_createdAt x < 8"
    by (simp add: sample_defs)
  have missing: "createEvidenceSchema example_is_url link_body = Some ?v
          \<and> find (\<lambda>x. ttfu_id x = ''ttfu7'') (ttfus seed_db) = None"
    by (simp add: link_body_valid) (simp add: sample_defs)
  have old: "map fst (detail_evidences (include_detail seed_db ttfu1)) = [evidence1]"
    by (simp add: include_detail_def order_by_createdAt_desc_def sample_defs)
  note thm1 = link_evidence_submission [OF auth refl refl,
      where is_url = example_is_url and new_id = "''evidence9''" and now = 8 and d = seed_db
        and ttfuId = "''ttfu1''" and j = link_body and v = ?v and t = ttfu1
        and u = "''https://example.com/doc''" and bad = "''not a url''"
        and kvs = "[(''type'', JString ''link''), (''url'', JString ''not a url'')]"]
  note thm2 = link_evidence_submission [OF auth refl refl,
      where is_url = example_is_url and new_id = "''evidence9''" and now = 8 and d = seed_db
        and ttfuId = "''ttfu7''" and j = link_body and v = ?v]
  from thm1 bad good newest old thm2 missing show ?thesis
    by (simp add: bad_link_body_def js_defs) (simp add: seed_db_def session_of_def user_def)
qed

text \<open>
  Claim C4, as the code has it. The handler requires the field of the declared kind and
  stores the other field as it was sent. For every Evidence row the operation produces:
  kind link implies a non-empty url, kind file implies a non-empty file reference, and
  both columns hold what the validated body held (null for an absent or empty value).
\<close>

theorem evidence_required_field_populated:
  assumes "POST_evidence is_url new_id now d session ttfuId body = (d', Success e)"
  shows "(ev_type e = Link \<longrightarrow> (\<exists>u. ev_url e = Some u \<and> u \<noteq> []))
       \<and> (ev_type e = File \<longrightarrow> (\<exists>f. ev_filePath e = Some f \<and> f \<noteq> []))
       \<and> (\<exists>j v. body = Some j \<and> createEvidenceSchema is_url j = Some v
             \<and> ev_type e = ei_type v \<and> ev_url e = or_null (ei_url v)
             \<and> ev_filePath e = or_null (ei_filePath v))"
  using assms
  by (auto simp: POST_evidence_def Let_def truthy_def or_null_def
           split: option.splits if_splits EvidenceType.splits)

theorem evidence_required_field_populated_witness:
  "POST_evidence example_is_url ''evidence9'' 8 seed_db (Some (session_of user ''USER'')) ''ttfu1''
     (Some file_body)
   = (seed_db\<lparr>evidences := [evidence1,
          \<lparr>ev_id = ''evidence9'', ev_ttfuId = ''ttfu1'', ev_type = File,
           ev_url = None, ev_filePath = Some ''uploads/report.pdf'',
           ev_description = None, ev_submittedById = ''user'', ev_createdAt = 8\<rparr>]\<rparr>,
      Success \<lparr>ev_id = ''evidence9'', ev_ttfuId = ''ttfu1'', ev_type = File,
           ev_url = None, ev_filePath = Some ''uploads/report.pdf'',
           ev_description = None, ev_submittedById = ''user'', ev_createdAt = 8\<rparr>)
   \<and> (\<exists>f. ev_filePath \<lparr>ev_id = ''evidence9'', ev_ttfuId = ''ttfu1'', ev_type = File,
           ev_url = None, ev_filePath = Some ''uploads/report.pdf'',
           ev_description = None, ev_submittedById = ''user'', ev_createdAt = 8\<rparr> = Some f
          \<and> f \<noteq> [])"
proof -
  have run: "POST_evidence example_is_url ''evidence9'' 8 seed_db (Some (session_of user ''USER''))
     ''ttfu1'' (Some file_body)
   = (seed_db\<lparr>evidences := [evidence1,
          \<lparr>ev_id = ''evidence9'', ev_ttfuId = ''ttfu1'', ev_type = File,
           ev_url = None, ev_filePath = Some ''uploads/report.pdf'',
           ev_description = None, ev_submittedById = ''user'', ev_createdAt = 8\<rparr>]\<rparr>,
      Success \<lparr>ev_id = ''evidence9'', ev_ttfuId = ''ttfu1'', ev_type = File,
           ev_url = None, ev_filePath = Some ''uploads/report.pdf'',
           ev_description = None, ev_submittedById = ''user'', ev_createdAt = 8\<rparr>)"
    by (simp add: POST_evidence_def evidence_create_def Let_def body_defs zod_defs js_defs
          sample_defs)
  from evidence_required_field_populated [OF run] run show ?thesis by simp
qed

text \<open>
  The claim as stated fails: a link submission that also carries a file path is accepted
  and stored with both columns populated.
\<close>

theorem evidence_both_fields_counterexample:
  "POST_evidence example_is_url ''evidence9'' 8 seed_db (Some (session_of user ''USER'')) ''ttfu1''
     (Some link_and_file_body)
   = (seed_db\<lparr>evidences := [evidence1,
          \<lparr>ev_id = ''evidence9'', ev_ttfuId = ''ttfu1'', ev_type = Link,
           ev_url = Some ''https://example.com/doc'', ev_filePath = Some ''uploads/doc.pdf'',
           ev_description = None, ev_submittedById = ''user'', ev_createdAt = 8\<rparr>]\<rparr>,
      Success \<lparr>ev_id = ''evidence9'', ev_ttfuId = ''ttfu1'', ev_type = Link,
           ev_url = Some ''https://example.com/doc'', ev_filePath = Some ''uploads/doc.pdf'',
           ev_description = None, ev_submittedById = ''user'', ev_createdAt = 8\<rparr>)"
  by (simp add: POST_evidence_def evidence_create_def Let_def body_defs zod_defs js_defs
        example_is_url_simps sample_defs)

section \<open>Auto-assignment at TTFU creation\<close>

lemma find_id_self:
  "find (\<lambda>u. user_id u = i) us = Some cu \<Longrightarrow> user_id cu = i \<and> cu \<in> set us"
  by (auto simp: find_Some_iff)

lemma find_role_none:
  "(\<forall>u \<in> set us. user_globalRole u \<noteq> REVIEWER \<and> user_globalRole u \<noteq> ADMIN) \<Longrightarrow>
     find (\<lambda>u. user_globalRole u = REVIEWER \<or> user_globalRole u = ADMIN) us = None"
  by (auto simp: find_None_iff)

lemma auto_assign_reviewer_or_admin:
  assumes "user_globalRole cu = REVIEWER \<or> user_globalRole cu = ADMIN"
    and "\<not> truthy a" and "\<not> truthy r"
  shows "auto_assign d (Some cu) a r =
           (js_or (Some (user_id cu)) (Some []), js_or (Some (user_id cu)) (Some []))"
  using assms by (auto simp: auto_assign_def js_or_def)

lemma auto_assign_spv_or_user:
  assumes "user_globalRole cu = SPV \<or> user_globalRole cu = USER"
    and "\<not> truthy a \<or> \<not> truthy r"
  shows "auto_assign d (Some cu) a r =
           (Some (user_id cu),
            js_or (map_option user_id
                     (find (\<lambda>u. user_globalRole u = REVIEWER \<or> user_globalRole u = ADMIN) (users d)))
                  (Some (user_id cu)))"
  using assms by (auto simp: auto_assign_def Let_def)

lemma POST_ttfu_unfold:
  assumes "sess_id s \<noteq> []" and "createTTFUSchema j = Some v"
    and "auto_assign d (find (\<lambda>u. user_id u = sess_id s) (users d))
           (ti_assigneeId v) (ti_reviewerId v) = (x, y)"
  shows "POST_ttfu parse_date new_id now d (Some s) (Some j) =
           (if \<not> truthy x \<or> \<not> truthy y
            then (d, Failure 400 ''Unable to assign TTFU. No valid assignee or reviewer found.'')
            else (case (x, y, due_date parse_date (ti_dueDate v)) of
                    (Some a, Some r, Some due) \<Rightarrow>
                      (let ttfu = \<lparr>ttfu_id = new_id, ttfu_meetingId = ti_meetingId v,
                                    ttfu_title = ti_title v,
                                    ttfu_description = ti_description v,
                                    ttfu_assigneeId = a, ttfu_reviewerId = r,
                                    ttfu_status = OPEN, ttfu_dueDate = due,
                                    ttfu_createdAt = now\<rparr>
                       in case ttfu_create d ttfu of
                            None \<Rightarrow> (d, internal_error)
                          | Some d' \<Rightarrow> (d', Success ttfu))
                  | _ \<Rightarrow> (d, internal_error)))"
  using assms by (simp add: POST_ttfu_def)

lemma ttfu_create_appends:
  "ttfu_create d t = Some d' \<Longrightarrow> ttfus d' = ttfus d @ [t]"
  by (auto simp: ttfu_create_def split: if_splits)

lemma POST_ttfu_success_row:
  assumes ok: "POST_ttfu parse_date new_id now d (Some s) (Some j) = (d', Success t)"
    and body: "createTTFUSchema j = Some v"
    and assign: "auto_assign d (find (\<lambda>u. user_id u = sess_id s) (users d))
                   (ti_assigneeId v) (ti_reviewerId v) = (x, y)"
  shows "x = Some (ttfu_assigneeId t) \<and> y = Some (ttfu_reviewerId t)
       \<and> ttfus d' = ttfus d @ [t]"
proof -
  have auth: "sess_id s \<noteq> []"
    using ok by (auto simp: POST_ttfu_def)
  note eq = ok [unfolded POST_ttfu_unfold [OF auth body assign]]
  show ?thesis
  proof (cases "\<not> truthy x \<or> \<not> truthy y")
    case True
    with eq show ?thesis by simp
  next
    case False
    then obtain a r where xy: "x = Some a" "y = Some r"
      by (auto simp: truthy_def split: option.splits)
    show ?thesis
    proof (cases "due_date parse_date (ti_dueDate v)")
      case None
      with eq False xy show ?thesis by simp
    next
      case (Some due)
      with eq False xy show ?thesis
        by (auto simp: Let_def split: option.splits dest: ttfu_create_appends)
    qed
  qed
qed

lemma create_ttfu_body_valid:
  "createTTFUSchema create_ttfu_body
     = Some \<lparr>ti_meetingId = ''meeting1'', ti_title = ''Follow up'', ti_description = None,
             ti_assigneeId = None, ti_reviewerId = None, ti_dueDate = None\<rparr>"
  by (simp add: create_ttfu_body_def zod_defs)

lemma create_ttfu_for_user_body_valid:
  "createTTFUSchema create_ttfu_for_user_body
     = Some \<lparr>ti_meetingId = ''meeting1'', ti_title = ''Prepare the report'',
             ti_description = None, ti_assigneeId = Some ''user'', ti_reviewerId = None,
             ti_dueDate = None\<rparr>"
  by (simp add: create_ttfu_for_user_body_def zod_defs)

text \<open>
  Claim C6. A creator whose global role is reviewer or admin sends a valid body that names
  neither assignee nor reviewer: the TTFU that is created has the creator as assignee and
  as reviewer.
\<close>

theorem reviewer_or_admin_creator_takes_both:
  assumes cu: "find (\<lambda>u. user_id u = sess_id s) (users d) = Some cu"
    and role: "user_globalRole cu = REVIEWER \<or> user_globalRole cu = ADMIN"
    and body: "createTTFUSchema j = Some v"
    and omitted: "ti_assigneeId v = None" "ti_reviewerId v = None"
    and ok: "POST_ttfu parse_date new_id now d (Some s) (Some j) = (d', Success t)"
  shows "ttfu_assigneeId t = sess_id s \<and> ttfu_reviewerId t = sess_id s
       \<and> ttfus d' = ttfus d @ [t]"
proof -
  from find_id_self [OF cu] have id: "user_id cu = sess_id s" by simp
  have "auto_assign d (Some cu) (ti_assigneeId v) (ti_reviewerId v) =
          (js_or (Some (user_id cu)) (Some []), js_or (Some (user_id cu)) (Some []))"
    using role omitted by (intro auto_assign_reviewer_or_admin) (simp_all add: truthy_def)
  with POST_ttfu_success_row [OF ok body, unfolded cu] id show ?thesis
    by (auto simp: js_or_def truthy_def split: if_splits)
qed

theorem reviewer_or_admin_creator_takes_both_witness:
  "POST_ttfu no_dates ''ttfu9'' 7 seed_db (Some (session_of reviewer ''REVIEWER''))
     (Some create_ttfu_body)
   = (seed_db\<lparr>ttfus := [ttfu1, ttfu2,
        \<lparr>ttfu_id = ''ttfu9'', ttfu_meetingId = ''meeting1'', ttfu_title = ''Follow up'',
         ttfu_description = None, ttfu_assigneeId = ''reviewer'', ttfu_reviewerId = ''reviewer'',
         ttfu_status = OPEN, ttfu_dueDate = None, ttfu_createdAt = 7\<rparr>]\<rparr>,
      Success \<lparr>ttfu_id = ''ttfu9'', ttfu_meetingId = ''meeting1'', ttfu_title = ''Follow up'',
         ttfu_description = None, ttfu_assigneeId = ''reviewer'', ttfu_reviewerId = ''reviewer'',
         ttfu_status = OPEN, ttfu_dueDate = None, ttfu_createdAt = 7\<rparr>)
   \<and> ttfu_assigneeId \<lparr>ttfu_id = ''ttfu9'', ttfu_meetingId = ''meeting1'', ttfu_title = ''Follow up'',
         ttfu_description = None, ttfu_assigneeId = ''reviewer'', ttfu_reviewerId = ''reviewer'',
         ttfu_status = OPEN, ttfu_dueDate = None, ttfu_createdAt = 7\<rparr>
       = sess_id (session_of reviewer ''REVIEWER'')"
proof -
  let ?s = "session_of reviewer ''REVIEWER''"
  have cu: "find (\<lambda>u. user_id u = sess_id ?s) (users seed_db) = Some reviewer"
    by (simp add: sample_defs)
  have role: "user_globalRole reviewer = REVIEWER \<or> user_globalRole reviewer = ADMIN"
    by (simp add: reviewer_def)
  have run: "POST_ttfu no_dates ''ttfu9'' 7 seed_db (Some ?s) (Some create_ttfu_body)
   = (seed_db\<lparr>ttfus := [ttfu1, ttfu2,
        \<lparr>ttfu_id = ''ttfu9'', ttfu_meetingId = ''meeting1'', ttfu_title = ''Follow up'',
         ttfu_description = None, ttfu_assigneeId = ''reviewer'', ttfu_reviewerId = ''reviewer'',
         ttfu_status = OPEN, ttfu_dueDate = None, ttfu_createdAt = 7\<rparr>]\<rparr>,
      Success \<lparr>ttfu_id = ''ttfu9'', ttfu_meetingId = ''meeting1'', ttfu_title = ''Follow up'',
         ttfu_description = None, ttfu_assigneeId = ''reviewer'', ttfu_reviewerId = ''reviewer'',
         ttfu_status = OPEN, ttfu_dueDate = None, ttfu_createdAt = 7\<rparr>)"
    by (simp add: ttfu_eval zod_defs sample_defs)
  from reviewer_or_admin_creator_takes_both [OF cu role create_ttfu_body_valid _ _ run] run
  show ?thesis by (simp add: session_of_def reviewer_def)
qed

text \<open>
  Claim C5, as the code has it. A creator whose global role is supervisor or user sends a
  valid body that names neither assignee nor reviewer, and the directory holds a user with
  role reviewer or admin: the TTFU that is created has the creator as assignee and, as
  reviewer, the first user with role reviewer or admin in the order the store returns.
\<close>

theorem supervisor_or_user_creator_assignment:
  assumes cu: "find (\<lambda>u. user_id u = sess_id s) (users d) = Some cu"
    and role: "user_globalRole cu = SPV \<or> user_globalRole cu = USER"
    and body: "createTTFUSchema j = Some v"
    and omitted: "ti_assigneeId v = None" "ti_reviewerId v = None"
    and rv: "find (\<lambda>u. user_globalRole u = REVIEWER \<or> user_globalRole u = ADMIN) (users d) = Some rv"
    and rv_id: "user_id rv \<noteq> []"
    and ok: "POST_ttfu parse_date new_id now d (Some s) (Some j) = (d', Success t)"
  shows "ttfu_assigneeId t = sess_id s \<and> ttfu_reviewerId t = user_id rv
       \<and> rv \<in> set (users d) \<and> (user_globalRole rv = REVIEWER \<or> user_globalRole rv = ADMIN)
       \<and> ttfus d' = ttfus d @ [t]"
proof -
  from find_id_self [OF cu] have id: "user_id cu = sess_id s" by simp
  from rv have mem: "rv \<in> set (users d)"
    and rrole: "user_globalRole rv = REVIEWER \<or> user_globalRole rv = ADMIN"
    by (auto simp: find_Some_iff)
  have "auto_assign d (Some cu) (ti_assigneeId v) (ti_reviewerId v) =
          (Some (user_id cu), Some (user_id rv))"
    using role omitted rv rv_id
    by (simp add: auto_assign_spv_or_user truthy_def js_or_def)
  with POST_ttfu_success_row [OF ok body, unfolded cu] id mem rrole show ?thesis
    by auto
qed

theorem supervisor_or_user_creator_assignment_witness:
  "POST_ttfu no_dates ''ttfu9'' 7 seed_db (Some (session_of spv ''SPV'')) (Some create_ttfu_body)
   = (seed_db\<lparr>ttfus := [ttfu1, ttfu2,
        \<lparr>ttfu_id = ''ttfu9'', ttfu_meetingId = ''meeting1'', ttfu_title = ''Follow up'',
         ttfu_description = None, ttfu_assigneeId = ''spv'', ttfu_reviewerId = ''admin'',
         ttfu_status = OPEN, ttfu_dueDate = None, ttfu_createdAt = 7\<rparr>]\<rparr>,
      Success \<lparr>ttfu_id = ''ttfu9'', ttfu_meetingId = ''meeting1'', ttfu_title = ''Follow up'',
         ttfu_description = None, ttfu_assigneeId = ''spv'', ttfu_reviewerId = ''admin'',
         ttfu_status = OPEN, ttfu_dueDate = None, ttfu_createdAt = 7\<rparr>)
   \<and> ttfu_reviewerId \<lparr>ttfu_id = ''ttfu9'', ttfu_meetingId = ''meeting1'', ttfu_title = ''Follow up'',
         ttfu_description = None, ttfu_assigneeId = ''spv'', ttfu_reviewerId = ''admin'',
         ttfu_status = OPEN, ttfu_dueDate = None, ttfu_createdAt = 7\<rparr> = user_id admin
   \<and> user_globalRole admin = ADMIN"
proof -
  let ?s = "session_of spv ''SPV''"
  have cu: "find (\<lambda>u. user_id u = sess_id ?s) (users seed_db) = Some spv"
    by (simp add: sample_defs)
  have role: "user_globalRole spv = SPV \<or> user_globalRole spv = USER"
    by (simp add: spv_def)
  have rv: "find (\<lambda>u. user_globalRole u = REVIEWER \<or> user_globalRole u = ADMIN) (users seed_db)
              = Some admin"
    by (simp add: sample_defs)
  have rv_id: "user_id admin \<noteq> []" by (simp add: admin_def)
  have run: "POST_ttfu no_dates ''ttfu9'' 7 seed_db (Some ?s) (Some create_ttfu_body)
   = (seed_db\<lparr>ttfus := [ttfu1, ttfu2,
        \<lparr>ttfu_id = ''ttfu9'', ttfu_meetingId = ''meeting1'', ttfu_title = ''Follow up'',
         ttfu_description = None, ttfu_assigneeId = ''spv'', ttfu_reviewerId = ''admin'',
         ttfu_status = OPEN, ttfu_dueDate = None, ttfu_createdAt = 7\<rparr>]\<rparr>,
      Success \<lparr>ttfu_id = ''ttfu9'', ttfu_meetingId = ''meeting1'', ttfu_title = ''Follow up'',
         ttfu_description = None, ttfu_assigneeId = ''spv'', ttfu_reviewerId = ''admin'',
         ttfu_status = OPEN, ttfu_dueDate = None, ttfu_createdAt = 7\<rparr>)"
    by (simp add: ttfu_eval zod_defs sample_defs)
  from supervisor_or_user_creator_assignment [OF cu role create_ttfu_body_valid _ _ rv rv_id run]
    run
  show ?thesis by (simp add: admin_def)
qed

text \<open>
  The claim as stated fails where no reviewer or admin exists: the supervisor's TTFU is
  created with the supervisor, whose role is SPV, as its reviewer.
\<close>

theorem supervisor_without_reviewer_counterexample:
  "POST_ttfu no_dates ''ttfu9'' 7 no_reviewer_db (Some (session_of spv ''SPV''))
     (Some create_ttfu_body)
   = (no_reviewer_db\<lparr>ttfus :=
        [\<lparr>ttfu_id = ''ttfu9'', ttfu_meetingId = ''meeting1'', ttfu_title = ''Follow up'',
          ttfu_description = None, ttfu_assigneeId = ''spv'', ttfu_reviewerId = ''spv'',
          ttfu_status = OPEN, ttfu_dueDate = None, ttfu_createdAt = 7\<rparr>]\<rparr>,
      Success \<lparr>ttfu_id = ''ttfu9'', ttfu_meetingId = ''meeting1'', ttfu_title = ''Follow up'',
          ttfu_description = None, ttfu_assigneeId = ''spv'', ttfu_reviewerId = ''spv'',
          ttfu_status = OPEN, ttfu_dueDate = None, ttfu_createdAt = 7\<rparr>)
   \<and> users no_reviewer_db = [spv, user]
   \<and> user_id spv = ''spv'' \<and> user_globalRole spv = SPV \<and> user_globalRole user = USER"
  by (simp add: ttfu_eval zod_defs sample_defs)

text \<open>
  Claim C2, as the code has it. The lookup of a reviewer falls back to the creator
  (\<^verbatim>\<open>reviewer?.id || currentUser.id\<close>). A creator with role supervisor or user who
  leaves out the assignee or the reviewer, in a directory without any reviewer or admin,
  is not refused: with a valid body, an existing meeting, a readable due date and an
  unused generated id the TTFU row is created, with the creator as assignee and as
  reviewer.
\<close>

theorem creation_without_reviewer_falls_back:
  assumes cu: "find (\<lambda>u. user_id u = sess_id s) (users d) = Some cu"
    and auth: "sess_id s \<noteq> []"
    and role: "user_globalRole cu = SPV \<or> user_globalRole cu = USER"
    and body: "createTTFUSchema j = Some v"
    and omitted: "\<not> truthy (ti_assigneeId v) \<or> \<not> truthy (ti_reviewerId v)"
    and none: "\<forall>u \<in> set (users d). user_globalRole u \<noteq> REVIEWER \<and> user_globalRole u \<noteq> ADMIN"
    and meeting: "ti_meetingId v \<in> meeting_id ` set (meetings d)"
    and due: "due_date parse_date (ti_dueDate v) = Some due"
    and fresh: "new_id \<notin> ttfu_id ` set (ttfus d)"
    and row: "row = \<lparr>ttfu_id = new_id, ttfu_meetingId = ti_meetingId v,
                     ttfu_title = ti_title v, ttfu_description = ti_description v,
                     ttfu_assigneeId = sess_id s, ttfu_reviewerId = sess_id s,
                     ttfu_status = OPEN, ttfu_dueDate = due, ttfu_createdAt = now\<rparr>"
  shows "POST_ttfu parse_date new_id now d (Some s) (Some j) =
           (d\<lparr>ttfus := ttfus d @ [row]\<rparr>, Success row)"
proof -
  from find_id_self [OF cu] have id: "user_id cu = sess_id s" and mem: "cu \<in> set (users d)"
    by simp_all
  have "auto_assign d (Some cu) (ti_assigneeId v) (ti_reviewerId v) =
          (Some (sess_id s), Some (sess_id s))"
    using role omitted none
    by (simp add: auto_assign_spv_or_user find_role_none js_or_def truthy_def id)
  with cu
  have assign: "auto_assign d (find (\<lambda>u. user_id u = sess_id s) (users d))
                  (ti_assigneeId v) (ti_reviewerId v) = (Some (sess_id s), Some (sess_id s))"
    by simp
  from mem id have "sess_id s \<in> user_id ` set (users d)" by force
  then have "ttfu_create d row = Some (d\<lparr>ttfus := ttfus d @ [row]\<rparr>)"
    using meeting fresh by (simp add: ttfu_create_def row)
  with POST_ttfu_unfold [OF auth body assign] auth due show ?thesis
    by (simp add: Let_def truthy_def row)
qed

theorem creation_without_reviewer_falls_back_witness:
  "POST_ttfu no_dates ''ttfu9'' 7 no_reviewer_db (Some (session_of spv ''SPV''))
     (Some create_ttfu_for_user_body)
   = (no_reviewer_db\<lparr>ttfus :=
        [\<lparr>ttfu_id = ''ttfu9'', ttfu_meetingId = ''meeting1'',
          ttfu_title = ''Prepare the report'', ttfu_description = None,
          ttfu_assigneeId = ''spv'', ttfu_reviewerId = ''spv'',
          ttfu_status = OPEN, ttfu_dueDate = None, ttfu_createdAt = 7\<rparr>]\<rparr>,
      Success \<lparr>ttfu_id = ''ttfu9'', ttfu_meetingId = ''meeting1'',
          ttfu_title = ''Prepare the report'', ttfu_description = None,
          ttfu_assigneeId = ''spv'', ttfu_reviewerId = ''spv'',
          ttfu_status = OPEN, ttfu_dueDate = None, ttfu_createdAt = 7\<rparr>)"
proof -
  let ?s = "session_of spv ''SPV''"
  let ?v = "\<lparr>ti_meetingId = ''meeting1'', ti_title = ''Prepare the report'',
             ti_description = None, ti_assigneeId = Some ''user'', ti_reviewerId = None,
             ti_dueDate = None\<rparr>"
  have cu: "find (\<lambda>u. user_id u = sess_id ?s) (users no_reviewer_db) = Some spv"
    by (simp add: sample_defs)
  have auth: "sess_id ?s \<noteq> []" by (simp add: sample_defs)
  have role: "user_globalRole spv = SPV \<or> user_globalRole spv = USER"
    by (simp add: spv_def)
  have omitted: "\<not> truthy (ti_assigneeId ?v) \<or> \<not> truthy (ti_reviewerId ?v)"
    by (simp add: truthy_def)
  have none: "\<forall>u \<in> set (users no_reviewer_db).
                user_globalRole u \<noteq> REVIEWER \<and> user_globalRole u \<noteq> ADMIN"
    by (simp add: sample_defs)
  have meeting: "ti_meetingId ?v \<in> meeting_id ` set (meetings no_reviewer_db)"
    by (simp add: sample_defs)
  have due: "due_date no_dates (ti_dueDate ?v) = Some None"
    by (simp add: due_date_def)
  have fresh: "''ttfu9'' \<notin> ttfu_id ` set (ttfus no_reviewer_db)"
    by (simp add: sample_defs)
  from creation_without_reviewer_falls_back
         [OF cu auth role create_ttfu_for_user_body_valid omitted none meeting due fresh refl,
          of 7]
  show ?thesis by (simp add: no_reviewer_db_def session_of_def spv_def)
qed

text \<open>
  The claim as stated fails: in the directory without reviewer or admin the plain user's
  request succeeds and a TTFU row is created.
\<close>

theorem creation_without_reviewer_counterexample:
  "POST_ttfu no_dates ''ttfu8'' 6 no_reviewer_db (Some (session_of user ''USER''))
     (Some create_ttfu_body)
   = (no_reviewer_db\<lparr>ttfus :=
        [\<lparr>ttfu_id = ''ttfu8'', ttfu_meetingId = ''meeting1'', ttfu_title = ''Follow up'',
          ttfu_description = None, ttfu_assigneeId = ''user'', ttfu_reviewerId = ''user'',
          ttfu_status = OPEN, ttfu_dueDate = None, ttfu_createdAt = 6\<rparr>]\<rparr>,
      Success \<lparr>ttfu_id = ''ttfu8'', ttfu_meetingId = ''meeting1'', ttfu_title = ''Follow up'',
          ttfu_description = None, ttfu_assigneeId = ''user'', ttfu_reviewerId = ''user'',
          ttfu_status = OPEN, ttfu_dueDate = None, ttfu_createdAt = 6\<rparr>)
   \<and> map user_globalRole (users no_reviewer_db) = [SPV, USER]"
  by (simp add: ttfu_eval zod_defs sample_defs)

section \<open>The status update\<close>

text \<open>
  As the route module stands, PATCH answers 401 to a caller without a session and lets a
  ReferenceError escape for everybody else; it never changes the store.
\<close>

lemma PATCH_never_returns:
  "PATCH d session ttfuId body =
     (d, case session of
           None \<Rightarrow> Failure 401 ''Unauthorized''
         | Some s \<Rightarrow> if sess_id s = [] then Failure 401 ''Unauthorized''
                     else Unhandled (ReferenceError ''z is not defined''))"
  by (simp add: PATCH_def PATCH_in_scope_def ttfu_id_route_binds_z_def split: option.splits)

text \<open>
  With \<^verbatim>\<open>z\<close> bound to zod, as in the sibling route modules, the handler body does
  what it is written for: a status of the enumeration on an existing TTFU overwrites the
  stored status and the next read returns it, a status outside the enumeration is a
  validation error, and an unknown id is not found.
\<close>

lemma find_ttfu_update_status:
  "find (\<lambda>t. ttfu_id t = i) (ttfus (ttfu_update_status d i' st)) =
     map_option (\<lambda>t. if ttfu_id t = i' then t\<lparr>ttfu_status := st\<rparr> else t)
       (find (\<lambda>t. ttfu_id t = i) (ttfus d))"
proof -
  have "find (\<lambda>t. ttfu_id t = i) (map (\<lambda>t. if ttfu_id t = i' then t\<lparr>ttfu_status := st\<rparr> else t) xs)
        = map_option (\<lambda>t. if ttfu_id t = i' then t\<lparr>ttfu_status := st\<rparr> else t)
            (find (\<lambda>t. ttfu_id t = i) xs)" for xs :: "TTFU list"
    by (induction xs) auto
  then show ?thesis by (simp add: ttfu_update_status_def)
qed

lemma status_update_if_z_were_bound:
  assumes "sess_id s \<noteq> []"
    and "find (\<lambda>t. ttfu_id t = ttfuId) (ttfus d) = Some t"
    and "updateSchema j = Some v"
  shows "PATCH_in_scope True d (Some s) ttfuId (Some j)
           = (ttfu_update_status d ttfuId (si_status v),
              Success (include_detail (ttfu_update_status d ttfuId (si_status v))
                         (t\<lparr>ttfu_status := si_status v\<rparr>)))
       \<and> GET_ttfu (ttfu_update_status d ttfuId (si_status v)) (Some s) ttfuId
           = Success (include_detail (ttfu_update_status d ttfuId (si_status v))
                         (t\<lparr>ttfu_status := si_status v\<rparr>))"
proof -
  from assms(2) have "ttfu_id t = ttfuId" by (auto simp: find_Some_iff)
  with assms show ?thesis
    by (simp add: PATCH_in_scope_def GET_ttfu_def Let_def find_ttfu_update_status)
qed

lemma updateSchema_status:
  "updateSchema (JObject [(''status'', JString x)]) =
     (if x = ''OPEN'' then Some \<lparr>si_status = OPEN, si_notes = None\<rparr>
      else if x = ''IN_PROGRESS'' then Some \<lparr>si_status = IN_PROGRESS, si_notes = None\<rparr>
      else if x = ''DONE'' then Some \<lparr>si_status = DONE, si_notes = None\<rparr>
      else if x = ''REJECTED'' then Some \<lparr>si_status = REJECTED, si_notes = None\<rparr>
      else None)"
  by (simp add: updateSchema_def z_ttfu_status_def z_string_optional_def get_prop_def)

lemma status_update_errors_if_z_were_bound:
  assumes "sess_id s \<noteq> []"
  shows "(updateSchema j = None \<longrightarrow>
            PATCH_in_scope True d (Some s) ttfuId (Some j) = (d, validation_error))
       \<and> (updateSchema j = Some v \<and> find (\<lambda>t. ttfu_id t = ttfuId) (ttfus d) = None \<longrightarrow>
            PATCH_in_scope True d (Some s) ttfuId (Some j) = (d, Failure 404 ''TTFU not found''))"
  using assms by (simp add: PATCH_in_scope_def)

text \<open>
  Claim C7 says that setting the status of an existing TTFU to a value of the enumeration
  succeeds for an authenticated caller and is seen by the next read. The code does not do
  that: the user sets the first seeded TTFU to DONE, the handler throws
  "z is not defined", and the store is unchanged.
\<close>

theorem status_update_throws:
  "PATCH seed_db (Some (session_of user ''USER'')) ''ttfu1''
     (Some (JObject [(''status'', JString ''DONE'')]))
   = (seed_db, Unhandled (ReferenceError ''z is not defined''))"
  by (simp add: PATCH_def PATCH_in_scope_def ttfu_id_route_binds_z_def session_of_def user_def)

end
